theory Spec2Isabelle
  imports Main "HOL-Library.Sublist"
begin

section \<open>requireCssModule.js: data model\<close>

text \<open>
  The module orchestrates external collaborators (the file system, the module loader,
  the stylus compiler, the postcss pipeline, the generic-names factory, the path
  utilities). Each of them is a field of the environment record \<open>env\<close>; the functions of
  the module itself are translated one by one below. A function that can throw returns
  \<open>error + 'a\<close>; the calls to the module loader and to the name-generator factory and the
  lines printed on the console are collected in a list of events.
\<close>

type_synonym path = string

text \<open>\<open>StyleModuleMapType\<close>: local class name to generated scoped name.\<close>
type_synonym StyleModuleMapType = "(string \<times> string) list"

text \<open>A scoped-name generator: local name, source file path, file contents.\<close>
type_synonym GenerateScopedNameType = "string \<Rightarrow> string \<Rightarrow> string \<Rightarrow> string"

text \<open>
  An entry of \<open>FiletypeOptionsType.plugins\<close>: a module name, or a pair of a module name
  and a configuration (an opaque value, kept as a string).
\<close>
datatype plugin_ref = PluginName string | PluginPair string string

text \<open>
  \<open>FiletypeOptionsType\<close> (lines 27-30). \<open>ft_syntax\<close> is the field \<open>syntax\<close>, a string that
  is falsy exactly when empty; \<open>ft_plugins\<close> is the optional field \<open>plugins\<close>.
\<close>
record FiletypeOptionsType =
  ft_syntax :: string
  ft_plugins :: "plugin_ref list option"

text \<open>\<open>FiletypesConfigurationType\<close> (lines 32-34): an object keyed by strings.\<close>
type_synonym FiletypesConfigurationType = "string \<rightharpoonup> FiletypeOptionsType"

text \<open>\<open>GenerateScopedNameConfigurationType\<close>: a naming function or a pattern.\<close>
datatype GenerateScopedNameConfigurationType =
  GenFunction GenerateScopedNameType | GenPattern string

text \<open>
  \<open>OptionsType\<close> (lines 36-40). \<open>filetypes\<close> is declared mandatory but the code tests it
  for truthiness (line 44), so it is optional here.
\<close>
record OptionsType =
  filetypes :: "FiletypesConfigurationType option"
  generateScopedName :: "GenerateScopedNameConfigurationType option"
  context_opt :: "string option"   \<comment> \<open>the field \<open>context\<close>\<close>

text \<open>
  What \<open>require\<close> returns: the exports of a module, opaque but for the name it was loaded
  under, its \<open>ui\<close> export (\<open>None\<close> when absent or falsy) and whether the export is a
  function, so that it can be called.
\<close>
datatype jsmodule = Module (moduleName: string) (ui: "string option") (callable: bool)

text \<open>A JavaScript error object as the stylus compiler reports it.\<close>
datatype JsError = JsError (errName: string) (errMessage: string)

text \<open>Everything the module can throw.\<close>
datatype error =
  ENOENT path               \<comment> \<open>\<open>readFileSync\<close> cannot read the file\<close>
  | LoadError string        \<comment> \<open>\<open>require\<close> cannot resolve the module\<close>
  | TypeError string        \<comment> \<open>the export of the module is called and is not a function\<close>
  | Error string            \<comment> \<open>\<open>new Error(err)\<close>, line 111, with its message\<close>
  | TransformError string   \<comment> \<open>thrown by the postcss pipeline\<close>
  | RangeError              \<comment> \<open>maximum call stack size exceeded\<close>

datatype event =
  Require string                 \<comment> \<open>a call \<open>require(name)\<close>\<close>
  | GenericNames string string   \<comment> \<open>a call \<open>genericNames(pattern, {context})\<close>\<close>
  | ConsoleWarn string           \<comment> \<open>a call \<open>console.warn(text)\<close>\<close>

text \<open>
  The stages of the pipeline (lines 157-168). \<open>Loaded m\<close> is \<open>require(plugin)\<close>,
  \<open>Configured m c\<close> is \<open>require(pluginName)(pluginOptions)\<close>. \<open>Parser fo\<close> is
  \<open>new Parser({fetch})\<close>: the closure \<open>fetch\<close> is represented by the value of
  \<open>filetypeOptions\<close> it captures; the \<open>runner\<close> it captures is the runner it is a stage of.
\<close>
datatype plugin =
  Loaded jsmodule
  | Configured jsmodule string
  | Values
  | LocalByDefault
  | ExtractImports
  | Scope GenerateScopedNameType
  | Parser "FiletypeOptionsType option"

text \<open>\<open>postcss(plugins)\<close>: a processor is its list of stages.\<close>
type_synonym runner = "plugin list"

text \<open>
  The object \<open>options\<close> of \<open>getTokens\<close> (lines 80-82, 116): \<open>from_file\<close> is the field
  \<open>from\<close>; \<open>syntax_opt\<close> is the field \<open>syntax\<close>: \<open>None\<close> when the property was never set,
  \<open>Some None\<close> when it was set to \<open>null\<close>, \<open>Some (Some m)\<close> when set to a loaded module.
\<close>
record process_options =
  from_file :: path
  syntax_opt :: "jsmodule option option"

datatype stylus_plugin = StylusHashPlugin string string

text \<open>The state of the stylus renderer built in lines 89-107.\<close>
record compiler =
  str :: string
  filename :: "path option"
  imported :: "path list"
  defined :: "(string \<times> bool) list"
  used :: "stylus_plugin list"

text \<open>
  Modelled from the spec: the postcss engine and its plugins are external. What the
  pipeline makes of one source text is a \<open>stylesheet\<close>: the relative paths of the
  \<open>composes ... from\<close> references, in the order in which the parsing stage resolves them
  through \<open>fetch\<close>; the token mapping \<open>root.tokens\<close> as a function of the token mappings
  fetched for these references; the texts of the warnings.
\<close>
record stylesheet =
  dependencies :: "string list"
  assemble :: "StyleModuleMapType list \<Rightarrow> StyleModuleMapType"
  warnings :: "string list"

text \<open>The external collaborators and the ambient state of the process.\<close>
record env =
  cwd :: path                                         \<comment> \<open>\<open>process.cwd()\<close>\<close>
  dirname :: "path \<Rightarrow> path"                          \<comment> \<open>\<open>path.dirname\<close>\<close>
  resolve :: "path \<Rightarrow> string \<Rightarrow> path"                \<comment> \<open>\<open>path.resolve\<close>\<close>
  join :: "path \<Rightarrow> string \<Rightarrow> path"                   \<comment> \<open>\<open>path.join\<close>\<close>
  readFileSync :: "path \<rightharpoonup> string"                  \<comment> \<open>\<open>None\<close>: the read throws\<close>
  existsSync :: "path \<Rightarrow> bool"
  require :: "string \<rightharpoonup> jsmodule"                  \<comment> \<open>\<open>None\<close>: the module cannot be resolved\<close>
  genericNames :: "string \<Rightarrow> string \<Rightarrow> GenerateScopedNameType"
  optionsDefaults_generateScopedName :: string        \<comment> \<open>\<open>./schemas/optionsDefaults\<close>\<close>
  stylus_render :: "compiler \<Rightarrow> JsError + string"     \<comment> \<open>\<open>compiler.render\<close>: error or CSS text\<close>
  transform :: "runner \<Rightarrow> string \<Rightarrow> process_options \<Rightarrow> string + stylesheet"
    \<comment> \<open>the pipeline on a source text: the message of the error it throws, or a stylesheet\<close>

type_synonym 'a outcome = "(error + 'a) \<times> event list"

section \<open>JavaScript string primitives\<close>

text \<open>
  \<open>String.prototype.lastIndexOf\<close> for a one-character search string: the index of the
  last occurrence, or \<open>-1\<close>.
\<close>
fun lastIndexOf :: "string \<Rightarrow> char \<Rightarrow> int" where
  "lastIndexOf [] c = - 1"
| "lastIndexOf (x # xs) c =
     (let r = lastIndexOf xs c
      in if 0 \<le> r then r + 1 else if x = c then 0 else - 1)"

text \<open>
  \<open>String.prototype.substr(start)\<close> without a length: a negative \<open>start\<close> counts from the
  end of the string and is clamped at \<open>0\<close>.
\<close>
definition substr :: "string \<Rightarrow> int \<Rightarrow> string" where
  "substr s start =
     (let n = int (length s);
          k = (if start < 0 then max (n + start) 0 else min start n)
      in drop (nat k) s)"

text \<open>The test \<open>/\.styl$/.test(cssSourceFilePath)\<close> of line 86.\<close>
definition test_styl :: "path \<Rightarrow> bool" where
  "test_styl p \<longleftrightarrow> suffix ''.styl'' p"

text \<open>
  \<open>String(err)\<close> for an error object (\<open>Error.prototype.toString\<close>), which is the message
  that \<open>new Error(err)\<close> gets.
\<close>
definition errorToString :: "JsError \<Rightarrow> string" where
  "errorToString e =
     (if errName e = [] then errMessage e
      else if errMessage e = [] then errName e
      else errName e @ '': '' @ errMessage e)"

section \<open>The functions of the module\<close>

text \<open>The constant \<open>extension\<close> of line 43.\<close>
definition extension_of :: "path \<Rightarrow> string" where
  "extension_of cssSourceFilePath =
     substr cssSourceFilePath (lastIndexOf cssSourceFilePath (CHR ''.''))"

text \<open>\<open>getFiletypeOptions\<close>, lines 42-47.\<close>
definition getFiletypeOptions ::
  "path \<Rightarrow> FiletypesConfigurationType option \<Rightarrow> FiletypeOptionsType option" where
  "getFiletypeOptions cssSourceFilePath filetypes_cfg =
     (let extension = extension_of cssSourceFilePath
      in case filetypes_cfg of None \<Rightarrow> None | Some ft \<Rightarrow> ft extension)"

text \<open>\<open>getSyntax\<close>, lines 50-57.\<close>
definition getSyntax :: "env \<Rightarrow> FiletypeOptionsType option \<Rightarrow> jsmodule option outcome" where
  "getSyntax e filetypeOptions =
     (case filetypeOptions of
        None \<Rightarrow> (Inr None, [])
      | Some fo \<Rightarrow>
          if ft_syntax fo = [] then (Inr None, [])
          else (case require e (ft_syntax fo) of
                  None \<Rightarrow> (Inl (LoadError (ft_syntax fo)), [Require (ft_syntax fo)])
                | Some m \<Rightarrow> (Inr (Some m), [Require (ft_syntax fo)])))"

text \<open>The callback of \<open>plugins.map\<close>, lines 65-75, on one entry.\<close>
definition loadPlugin :: "env \<Rightarrow> plugin_ref \<Rightarrow> plugin outcome" where
  "loadPlugin e plugin =
     (case plugin of
        PluginPair pluginName pluginOptions \<Rightarrow>
          (case require e pluginName of
             None \<Rightarrow> (Inl (LoadError pluginName), [Require pluginName])
           | Some m \<Rightarrow>
               if callable m then (Inr (Configured m pluginOptions), [Require pluginName])
               else (Inl (TypeError pluginName), [Require pluginName]))
      | PluginName name \<Rightarrow>
          (case require e name of
             None \<Rightarrow> (Inl (LoadError name), [Require name])
           | Some m \<Rightarrow> (Inr (Loaded m), [Require name])))"

text \<open>\<open>Array.prototype.map\<close> with a callback that can throw: the first throw ends it.\<close>
fun loadPlugins :: "env \<Rightarrow> plugin_ref list \<Rightarrow> plugin list outcome" where
  "loadPlugins e [] = (Inr [], [])"
| "loadPlugins e (p # ps) =
     (case loadPlugin e p of
        (Inl err, l) \<Rightarrow> (Inl err, l)
      | (Inr x, l) \<Rightarrow>
          (case loadPlugins e ps of
             (Inl err, l') \<Rightarrow> (Inl err, l @ l')
           | (Inr xs, l') \<Rightarrow> (Inr (x # xs), l @ l')))"

text \<open>\<open>getExtraPlugins\<close>, lines 60-76.\<close>
definition getExtraPlugins :: "env \<Rightarrow> FiletypeOptionsType option \<Rightarrow> plugin list outcome" where
  "getExtraPlugins e filetypeOptions =
     (case filetypeOptions of
        None \<Rightarrow> (Inr [], [])
      | Some fo \<Rightarrow>
          (case ft_plugins fo of
             None \<Rightarrow> (Inr [], [])
           | Some ps \<Rightarrow> loadPlugins e ps))"

text \<open>
  Lines 87-107 of \<open>getTokens\<close>: the stylus renderer for a dialect source, configured
  with the file's own path, the shared stylesheet and the theme of the project
  configuration when they exist.
\<close>
definition stylusCompiler :: "env \<Rightarrow> path \<Rightarrow> string \<Rightarrow> compiler outcome" where
  "stylusCompiler e cssSourceFilePath src =
     (let STYLES_PATH = join e (cwd e) ''styles/index.styl'';
          CONFIG_PATH = join e (cwd e) ''startupjs.config.js'';
          c0 = \<lparr>str = src, filename = None, imported = [], defined = [], used = []\<rparr>;
          c1 = c0\<lparr>filename := Some cssSourceFilePath\<rparr>;
          c2 = (if existsSync e STYLES_PATH then c1\<lparr>imported := imported c1 @ [STYLES_PATH]\<rparr>
                else c1);
          c3 = c2\<lparr>defined := defined c2 @ [(''__WEB__'', True)]\<rparr>
      in if existsSync e CONFIG_PATH then
           (case require e CONFIG_PATH of
              None \<Rightarrow> (Inl (LoadError CONFIG_PATH), [Require CONFIG_PATH])
            | Some m \<Rightarrow>
                (case ui m of
                   Some u \<Rightarrow> (Inr (c3\<lparr>used := used c3 @ [StylusHashPlugin ''$UI'' u]\<rparr>),
                              [Require CONFIG_PATH])
                 | None \<Rightarrow> (Inr c3, [Require CONFIG_PATH])))
         else (Inr c3, []))"

text \<open>
  Lines 80-117 of \<open>getTokens\<close>: the source text and the options handed to
  \<open>runner.process\<close>. The callback of \<open>compiler.render\<close> runs before \<open>render\<close> returns.
\<close>
definition prepare ::
  "env \<Rightarrow> path \<Rightarrow> FiletypeOptionsType option \<Rightarrow> (string \<times> process_options) outcome" where
  "prepare e cssSourceFilePath filetypeOptions =
     (let options = \<lparr>from_file = cssSourceFilePath, syntax_opt = None\<rparr>
      in case readFileSync e cssSourceFilePath of
           None \<Rightarrow> (Inl (ENOENT cssSourceFilePath), [])
         | Some src \<Rightarrow>
             if test_styl cssSourceFilePath then
               (case stylusCompiler e cssSourceFilePath src of
                  (Inl err, l) \<Rightarrow> (Inl err, l)
                | (Inr c, l) \<Rightarrow>
                    (case stylus_render e c of
                       Inl err \<Rightarrow> (Inl (Error (errorToString err)), l)
                     | Inr res \<Rightarrow> (Inr (res, options), l)))
             else if filetypeOptions \<noteq> None then
               (case getSyntax e filetypeOptions of
                  (Inl err, l) \<Rightarrow> (Inl err, l)
                | (Inr s, l) \<Rightarrow> (Inr (src, options\<lparr>syntax_opt := Some s\<rparr>), l))
             else (Inr (src, options), []))"

text \<open>The \<open>fetch\<close> closure that the parsing stage of a runner holds, if it has one.\<close>
fun parserFetch :: "runner \<Rightarrow> FiletypeOptionsType option option" where
  "parserFetch [] = None"
| "parserFetch (Parser fo # ps) = Some fo"
| "parserFetch (p # ps) = parserFetch ps"

text \<open>
  Modelled from the spec: the parsing stage resolves the references of a stylesheet one
  after the other by calling \<open>fetch(to, from)\<close> with the path of the importing file; an
  error thrown by a call ends the run.
\<close>
fun fetchAll ::
  "(string \<Rightarrow> path \<Rightarrow> StyleModuleMapType outcome) \<Rightarrow> path \<Rightarrow> string list
     \<Rightarrow> StyleModuleMapType list outcome" where
  "fetchAll f from_path [] = (Inr [], [])"
| "fetchAll f from_path (to # tos) =
     (case f to from_path of
        (Inl err, l) \<Rightarrow> (Inl err, l)
      | (Inr t, l) \<Rightarrow>
          (case fetchAll f from_path tos of
             (Inl err, l') \<Rightarrow> (Inl err, l @ l')
           | (Inr ts, l') \<Rightarrow> (Inr (t # ts), l @ l')))"

text \<open>
  Modelled from the spec: \<open>runner.process(src, options)\<close> forced by \<open>.warnings()\<close>. The
  pipeline transforms the text, its parsing stage fetches the references, and the run
  exposes \<open>root.tokens\<close> and the warnings. \<open>call\<close> runs a \<open>fetch\<close> closure; a runner without
  a parsing stage fetches nothing.
\<close>
definition process ::
  "env \<Rightarrow> runner \<Rightarrow> string \<Rightarrow> process_options
     \<Rightarrow> (FiletypeOptionsType option \<Rightarrow> string \<Rightarrow> path \<Rightarrow> StyleModuleMapType outcome)
     \<Rightarrow> (StyleModuleMapType \<times> string list) outcome" where
  "process e r src options call =
     (case transform e r src options of
        Inl msg \<Rightarrow> (Inl (TransformError msg), [])
      | Inr sheet \<Rightarrow>
          (case parserFetch r of
             None \<Rightarrow> (Inr (assemble sheet [], warnings sheet), [])
           | Some captured \<Rightarrow>
               (case fetchAll (call captured) (from_file options) (dependencies sheet) of
                  (Inl err, l) \<Rightarrow> (Inl err, l)
                | (Inr ts, l) \<Rightarrow> (Inr (assemble sheet ts, warnings sheet), l))))"

text \<open>
  \<open>getTokens\<close> (lines 78-130) and \<open>fetch\<close> (lines 148-153). The first argument is the
  number of nested calls the call stack still has room for: with none left the call
  throws \<open>RangeError\<close>. \<open>fetch\<close> gets the runner and the \<open>filetypeOptions\<close> of its closure
  as arguments.
\<close>
fun getTokens ::
  "nat \<Rightarrow> env \<Rightarrow> runner \<Rightarrow> path \<Rightarrow> FiletypeOptionsType option \<Rightarrow> StyleModuleMapType outcome"
and fetch ::
  "nat \<Rightarrow> env \<Rightarrow> runner \<Rightarrow> FiletypeOptionsType option \<Rightarrow> string \<Rightarrow> path
     \<Rightarrow> StyleModuleMapType outcome" where
  "getTokens 0 e r cssSourceFilePath filetypeOptions = (Inl RangeError, [])"
| "getTokens (Suc d) e r cssSourceFilePath filetypeOptions =
     (case prepare e cssSourceFilePath filetypeOptions of
        (Inl err, l) \<Rightarrow> (Inl err, l)
      | (Inr (src, options), l) \<Rightarrow>
          (case process e r src options (\<lambda>captured to from_path. fetch d e r captured to from_path) of
             (Inl err, l') \<Rightarrow> (Inl err, l @ l')
           | (Inr (tokens, ws), l') \<Rightarrow> (Inr tokens, l @ l' @ map ConsoleWarn ws)))"
| "fetch d e r filetypeOptions to from_path =
     (let fromDirectoryPath = dirname e from_path;
          toPath = resolve e fromDirectoryPath to
      in getTokens d e r toPath filetypeOptions)"

text \<open>Lines 136-144 of the default export: the scoped-name generator.\<close>
definition resolveGenerateScopedName ::
  "env \<Rightarrow> OptionsType \<Rightarrow> GenerateScopedNameType \<times> event list" where
  "resolveGenerateScopedName e options =
     (case generateScopedName options of
        Some (GenFunction f) \<Rightarrow> (f, [])
      | other \<Rightarrow>
          (let pattern = (case other of
                            Some (GenPattern p) \<Rightarrow>
                              if p \<noteq> [] then p else optionsDefaults_generateScopedName e
                          | _ \<Rightarrow> optionsDefaults_generateScopedName e);
               ctx = (case context_opt options of
                        Some c \<Rightarrow> if c \<noteq> [] then c else cwd e
                      | None \<Rightarrow> cwd e)
           in (genericNames e pattern ctx, [GenericNames pattern ctx])))"

text \<open>Lines 136-170 of the default export: the runner \<open>postcss(plugins)\<close>.\<close>
definition buildRunner :: "env \<Rightarrow> path \<Rightarrow> OptionsType \<Rightarrow> runner outcome" where
  "buildRunner e cssSourceFilePath options =
     (case resolveGenerateScopedName e options of
        (gen, l0) \<Rightarrow>
          (let filetypeOptions = getFiletypeOptions cssSourceFilePath (filetypes options)
           in case getExtraPlugins e filetypeOptions of
                (Inl err, l1) \<Rightarrow> (Inl err, l0 @ l1)
              | (Inr extraPlugins, l1) \<Rightarrow>
                  (Inr (extraPlugins @
                        [Values, LocalByDefault, ExtractImports, Scope gen,
                         Parser filetypeOptions]),
                   l0 @ l1)))"

text \<open>The default export, lines 132-173.\<close>
definition requireCssModule ::
  "nat \<Rightarrow> env \<Rightarrow> path \<Rightarrow> OptionsType \<Rightarrow> StyleModuleMapType outcome" where
  "requireCssModule d e cssSourceFilePath options =
     (case buildRunner e cssSourceFilePath options of
        (Inl err, l) \<Rightarrow> (Inl err, l)
      | (Inr r, l) \<Rightarrow>
          (case getTokens d e r cssSourceFilePath
                  (getFiletypeOptions cssSourceFilePath (filetypes options)) of
             (res, l') \<Rightarrow> (res, l @ l')))"

section \<open>Observations on a run\<close>

text \<open>The generator that the scoping stage of a runner was built with.\<close>
fun scopeGenerator :: "runner \<Rightarrow> GenerateScopedNameType option" where
  "scopeGenerator [] = None"
| "scopeGenerator (Scope g # ps) = Some g"
| "scopeGenerator (p # ps) = scopeGenerator ps"

text \<open>
  The files that a file refers to through \<open>composes ... from\<close>: the absolute paths that
  \<open>fetch\<close> computes for the references of its stylesheet, when the file can be read,
  prepared and transformed.
\<close>
definition dependenciesOf ::
  "env \<Rightarrow> runner \<Rightarrow> FiletypeOptionsType option \<Rightarrow> path \<Rightarrow> path list option" where
  "dependenciesOf e r fo p =
     (case prepare e p fo of
        (Inl err, l) \<Rightarrow> None
      | (Inr (src, options), l) \<Rightarrow>
          (case transform e r src options of
             Inl msg \<Rightarrow> None
           | Inr sheet \<Rightarrow> Some (map (\<lambda>to. resolve e (dirname e p) to) (dependencies sheet))))"

text \<open>
  The same environment with a pipeline that emits other warnings: \<open>W\<close> gives the
  warnings of each stylesheet, everything else is unchanged.
\<close>
definition rewarn ::
  "(runner \<Rightarrow> string \<Rightarrow> process_options \<Rightarrow> stylesheet \<Rightarrow> string list) \<Rightarrow> env \<Rightarrow> env" where
  "rewarn W e =
     e\<lparr>transform := (\<lambda>r src options.
          case transform e r src options of
            Inl msg \<Rightarrow> Inl msg
          | Inr sheet \<Rightarrow> Inr (sheet\<lparr>warnings := W r src options sheet\<rparr>))\<rparr>"

section \<open>A small project to run the module on\<close>

text \<open>
  A directory \<open>/proj\<close> with a few files. In this project the text of a stylesheet is the
  relative path of the one file it composes from, or empty; the pipeline rejects the
  text \<open>!\<close> and warns about an empty text; stylus rejects the text \<open>bad\<close>.
\<close>

definition demo_dirname :: "path \<Rightarrow> path" where
  "demo_dirname p = take (nat (lastIndexOf p (CHR ''/''))) p"

definition demo_resolve :: "path \<Rightarrow> string \<Rightarrow> path" where
  "demo_resolve dir to = dir @ ''/'' @ (if take 2 to = ''./'' then drop 2 to else to)"

definition demo_files :: "path \<rightharpoonup> string" where
  "demo_files =
     [''/proj/a.css'' \<mapsto> ''./b.css'',
      ''/proj/b.css'' \<mapsto> ''./a.css'',
      ''/proj/main.css'' \<mapsto> ''./shared.scss'',
      ''/proj/shared.scss'' \<mapsto> [],
      ''/proj/theme.styl'' \<mapsto> [],
      ''/proj/bad.styl'' \<mapsto> ''bad'',
      ''/proj/Makefile'' \<mapsto> []]"

definition demo_require :: "string \<rightharpoonup> jsmodule" where
  "demo_require name =
     (if name = ''postcss-scss'' \<or> name = ''postcss-nested''
      then Some (Module name None True) else None)"

definition demo_render :: "compiler \<Rightarrow> JsError + string" where
  "demo_render c =
     (if str c = ''bad'' then Inl (JsError ''ParseError'' ''unexpected indent'')
      else Inr (str c))"

definition demo_transform :: "runner \<Rightarrow> string \<Rightarrow> process_options \<Rightarrow> string + stylesheet" where
  "demo_transform r src options =
     (if src = ''!'' then Inl ''Unknown word''
      else Inr \<lparr>dependencies = (if src = [] then [] else [src]),
                assemble = (\<lambda>ts. (''root'', from_file options) # concat ts),
                warnings = (if src = [] then [''empty stylesheet''] else [])\<rparr>)"

definition demo_env :: env where
  "demo_env =
     \<lparr>cwd = ''/proj'',
      dirname = demo_dirname,
      resolve = demo_resolve,
      join = (\<lambda>a b. a @ ''/'' @ b),
      readFileSync = demo_files,
      existsSync = (\<lambda>p. demo_files p \<noteq> None),
      require = demo_require,
      genericNames = (\<lambda>pattern ctx localName file css. pattern @ localName),
      optionsDefaults_generateScopedName = ''[path]___[name]__[local]___[hash:base64:5]'',
      stylus_render = demo_render,
      transform = demo_transform\<rparr>"

text \<open>
  A second project: \<open>a.css\<close> refers to a file that does not exist and then to \<open>b.css\<close>,
  and \<open>b.css\<close> refers to \<open>a.css\<close>.
\<close>
definition gap_transform :: "runner \<Rightarrow> string \<Rightarrow> process_options \<Rightarrow> string + stylesheet" where
  "gap_transform r src options =
     Inr \<lparr>dependencies = (if src = ''first'' then [''./missing.css'', ''./b.css'']
                           else if src = [] then [] else [src]),
          assemble = (\<lambda>ts. (''root'', from_file options) # concat ts),
          warnings = []\<rparr>"

definition gap_env :: env where
  "gap_env =
     demo_env\<lparr>readFileSync := [''/proj/a.css'' \<mapsto> ''first'', ''/proj/b.css'' \<mapsto> ''./a.css''],
               transform := gap_transform\<rparr>"

definition scss_options :: FiletypeOptionsType where
  "scss_options = \<lparr>ft_syntax = ''postcss-scss'', ft_plugins = Some [PluginName ''postcss-nested'']\<rparr>"

definition suffix_generator :: GenerateScopedNameType where
  "suffix_generator localName file css = localName @ ''_x''"

definition direct_options :: OptionsType where
  "direct_options =
     \<lparr>filetypes = None, generateScopedName = Some (GenFunction suffix_generator),
      context_opt = None\<rparr>"

definition demo_filetypes :: FiletypesConfigurationType where
  "demo_filetypes =
     [''.scss'' \<mapsto> scss_options, ''.styl'' \<mapsto> scss_options, ''e'' \<mapsto> scss_options]"

definition pattern_options :: OptionsType where
  "pattern_options =
     \<lparr>filetypes = Some demo_filetypes,
      generateScopedName = Some (GenPattern ''[local]''),
      context_opt = Some ''/ctx''\<rparr>"

definition plain_options :: FiletypeOptionsType where
  "plain_options = \<lparr>ft_syntax = [], ft_plugins = None\<rparr>"

definition mixed_options :: OptionsType where
  "mixed_options =
     \<lparr>filetypes = Some [''.css'' \<mapsto> plain_options, ''.scss'' \<mapsto> scss_options],
      generateScopedName = Some (GenFunction suffix_generator),
      context_opt = None\<rparr>"

definition plain_runner :: runner where
  "plain_runner =
     [Values, LocalByDefault, ExtractImports, Scope suffix_generator, Parser (Some plain_options)]"

definition bare_runner :: runner where
  "bare_runner = [Values, LocalByDefault, ExtractImports, Scope suffix_generator, Parser None]"

definition empty_sheet :: "path \<Rightarrow> stylesheet" where
  "empty_sheet p =
     \<lparr>dependencies = [], assemble = (\<lambda>ts. (''root'', p) # concat ts),
      warnings = [''empty stylesheet'']\<rparr>"

section \<open>Auxiliary facts\<close>

lemma lastIndexOf_absent: "c \<notin> set s \<Longrightarrow> lastIndexOf s c = - 1"
  by (induction s) (auto simp: Let_def)

lemma lastIndexOf_last:
  "c \<notin> set ext \<Longrightarrow> lastIndexOf (pre @ c # ext) c = int (length pre)"
  by (induction pre) (auto simp: Let_def lastIndexOf_absent)

lemma extension_of_dotted:
  assumes "CHR ''.'' \<notin> set ext"
  shows "extension_of (pre @ CHR ''.'' # ext) = CHR ''.'' # ext"
  using assms by (simp add: extension_of_def lastIndexOf_last substr_def)

lemma extension_of_dotless:
  assumes "CHR ''.'' \<notin> set p" and "p \<noteq> []"
  shows "extension_of p = [last p]"
proof -
  obtain q x where p: "p = q @ [x]"
    using assms(2) by (cases p rule: rev_cases) auto
  have "nat (max (int (length p) - 1) 0) = length q"
    by (simp add: p)
  then show ?thesis
    using assms(1) by (simp add: extension_of_def lastIndexOf_absent substr_def p)
qed

lemma extension_of_no_dot:
  assumes "CHR ''.'' \<notin> set p"
  shows "extension_of p = (if p = [] then [] else [last p])"
proof (cases "p = []")
  case True
  then show ?thesis
    by (simp add: extension_of_def substr_def)
next
  case False
  with assms show ?thesis
    by (simp add: extension_of_dotless)
qed

lemma test_styl_iff: "test_styl p \<longleftrightarrow> (\<exists>pre. p = pre @ ''.styl'')"
  by (simp only: test_styl_def suffix_def)

lemma test_styl_eval: "test_styl p \<longleftrightarrow> prefix ''lyts.'' (rev p)"
  by (simp add: test_styl_def suffix_to_prefix)

lemma extension_of_styl: "test_styl p \<Longrightarrow> extension_of p = ''.styl''"
proof -
  assume "test_styl p"
  then obtain pre where "p = pre @ CHR ''.'' # ''styl''"
    unfolding test_styl_iff by blast
  then show ?thesis
    using extension_of_dotted [of "''styl''" pre] by simp
qed

lemma test_styl_dot: "test_styl p \<Longrightarrow> CHR ''.'' \<in> set p"
  unfolding test_styl_iff by auto

lemma loadPlugin_cases:
  "loadPlugin e p = (Inr x, l) \<Longrightarrow> (\<exists>m. x = Loaded m) \<or> (\<exists>m c. x = Configured m c)"
  by (auto simp: loadPlugin_def split: plugin_ref.splits option.splits if_splits)

lemma loadPlugins_parserFetch:
  "loadPlugins e ps = (Inr xs, l) \<Longrightarrow> parserFetch (xs @ rest) = parserFetch rest"
proof (induction ps arbitrary: xs l)
  case Nil
  then show ?case by simp
next
  case (Cons p ps)
  then show ?case
    by (auto split: prod.splits sum.splits dest!: loadPlugin_cases)
qed

lemma loadPlugins_scopeGenerator:
  "loadPlugins e ps = (Inr xs, l) \<Longrightarrow> scopeGenerator (xs @ rest) = scopeGenerator rest"
proof (induction ps arbitrary: xs l)
  case Nil
  then show ?case by simp
next
  case (Cons p ps)
  then show ?case
    by (auto split: prod.splits sum.splits dest!: loadPlugin_cases)
qed

lemma getExtraPlugins_parserFetch:
  "getExtraPlugins e fo = (Inr xs, l) \<Longrightarrow> parserFetch (xs @ rest) = parserFetch rest"
  by (auto simp: getExtraPlugins_def loadPlugins_parserFetch split: option.splits)

lemma getExtraPlugins_scopeGenerator:
  "getExtraPlugins e fo = (Inr xs, l) \<Longrightarrow> scopeGenerator (xs @ rest) = scopeGenerator rest"
  by (auto simp: getExtraPlugins_def loadPlugins_scopeGenerator split: option.splits)

lemma loadPlugin_events:
  "loadPlugin e p = (res, l) \<Longrightarrow> ev \<in> set l \<Longrightarrow> \<exists>n. ev = Require n"
  by (auto simp: loadPlugin_def split: plugin_ref.splits option.splits if_splits)

lemma loadPlugins_events:
  "loadPlugins e ps = (res, l) \<Longrightarrow> ev \<in> set l \<Longrightarrow> \<exists>n. ev = Require n"
proof (induction ps arbitrary: res l)
  case Nil
  then show ?case by simp
next
  case (Cons p ps)
  then show ?case
    by (auto split: prod.splits sum.splits dest: loadPlugin_events)
qed

lemma getExtraPlugins_events:
  "getExtraPlugins e fo = (res, l) \<Longrightarrow> ev \<in> set l \<Longrightarrow> \<exists>n. ev = Require n"
  by (auto simp: getExtraPlugins_def split: option.splits dest: loadPlugins_events)

lemma getSyntax_events:
  "getSyntax e fo = (res, l) \<Longrightarrow> ev \<in> set l \<Longrightarrow> \<exists>n. ev = Require n"
  by (auto simp: getSyntax_def split: option.splits if_splits)

lemma stylusCompiler_events:
  "stylusCompiler e p src = (res, l) \<Longrightarrow> ev \<in> set l \<Longrightarrow> \<exists>n. ev = Require n"
  by (auto simp: stylusCompiler_def Let_def split: option.splits if_splits)

lemma prepare_events:
  "prepare e p fo = (res, l) \<Longrightarrow> ev \<in> set l \<Longrightarrow> \<exists>n. ev = Require n"
  by (auto simp: prepare_def Let_def split: option.splits if_splits prod.splits sum.splits
      dest: stylusCompiler_events getSyntax_events)

lemma prepare_from_file:
  "prepare e p fo = (Inr (src, options), l) \<Longrightarrow> from_file options = p"
  by (auto simp: prepare_def Let_def split: option.splits if_splits prod.splits sum.splits)

lemma fetchAll_events:
  assumes "\<And>to res l. to \<in> set tos \<Longrightarrow> f to from_path = (res, l) \<Longrightarrow> ev \<in> set l \<Longrightarrow> Q"
  shows "fetchAll f from_path tos = (res, l) \<Longrightarrow> ev \<in> set l \<Longrightarrow> Q"
  using assms
proof (induction tos arbitrary: res l)
  case Nil
  then show ?case by simp
next
  case (Cons to tos)
  obtain r1 l1 where f: "f to from_path = (r1, l1)" by (cases "f to from_path")
  obtain r2 l2 where g: "fetchAll f from_path tos = (r2, l2)" by (cases "fetchAll f from_path tos")
  have in1: "ev \<in> set l1 \<Longrightarrow> Q"
    using Cons.prems(3) [of to r1 l1] f by simp
  have in2: "ev \<in> set l2 \<Longrightarrow> Q"
    using Cons.IH [OF g] Cons.prems(3) by auto
  from Cons.prems(1,2) f g in1 in2 show ?case
    by (auto split: sum.splits)
qed

lemma process_events:
  assumes "\<And>captured to res l. call captured to (from_file options) = (res, l) \<Longrightarrow> ev \<in> set l \<Longrightarrow> Q"
    and "process e r src options call = (res, l)" and "ev \<in> set l"
  shows Q
  using assms(2,3)
  by (auto simp: process_def split: sum.splits option.splits prod.splits
      elim: fetchAll_events [where Q = Q and ev = ev, rotated] intro: assms(1))

lemma getTokens_events:
  "getTokens d e r p fo = (res, l) \<Longrightarrow> ev \<in> set l
     \<Longrightarrow> (\<exists>n. ev = Require n) \<or> (\<exists>w. ev = ConsoleWarn w)"
proof (induction d arbitrary: p fo res l)
  case 0
  then show ?case by simp
next
  case (Suc d)
  obtain r1 l1 where p1: "prepare e p fo = (r1, l1)" by (cases "prepare e p fo")
  show ?case
  proof (cases r1)
    case (Inl err)
    with Suc.prems p1 show ?thesis
      by (auto dest: prepare_events)
  next
    case (Inr so)
    obtain src options where so: "so = (src, options)" by (cases so)
    obtain r2 l2 where p2:
      "process e r src options (\<lambda>captured to from_path. fetch d e r captured to from_path) = (r2, l2)"
      by (cases "process e r src options (\<lambda>captured to from_path. fetch d e r captured to from_path)")
    have in2: "ev \<in> set l2 \<Longrightarrow> ?thesis"
      by (rule process_events [OF _ p2]) (auto dest: Suc.IH)
    from Suc.prems p1 Inr so p2 in2 show ?thesis
      by (auto split: sum.splits dest: prepare_events)
  qed
qed

lemma buildRunner_Inr:
  assumes "buildRunner e p options = (Inr r, l)"
  obtains extra l1 where
    "getExtraPlugins e (getFiletypeOptions p (filetypes options)) = (Inr extra, l1)"
    "r = extra @ [Values, LocalByDefault, ExtractImports,
                  Scope (fst (resolveGenerateScopedName e options)),
                  Parser (getFiletypeOptions p (filetypes options))]"
    "l = snd (resolveGenerateScopedName e options) @ l1"
  using assms
  by (auto simp: buildRunner_def Let_def split: prod.splits sum.splits)

lemma buildRunner_scopeGenerator:
  assumes "buildRunner e p options = (Inr r, l)"
  shows "scopeGenerator r = Some (fst (resolveGenerateScopedName e options))"
  using assms by (elim buildRunner_Inr) (simp add: getExtraPlugins_scopeGenerator)

lemma buildRunner_parserFetch:
  assumes "buildRunner e p options = (Inr r, l)"
  shows "parserFetch r = Some (getFiletypeOptions p (filetypes options))"
  using assms by (elim buildRunner_Inr) (simp add: getExtraPlugins_parserFetch)

lemma buildRunner_events:
  assumes "buildRunner e p options = (res, l)" and "ev \<in> set l"
  shows "ev \<in> set (snd (resolveGenerateScopedName e options)) \<or> (\<exists>n. ev = Require n)"
  using assms
  by (auto simp: buildRunner_def Let_def split: prod.splits sum.splits
      dest: getExtraPlugins_events)

lemma requireCssModule_events:
  assumes "ev \<in> set (snd (requireCssModule d e p options))"
  shows "ev \<in> set (snd (resolveGenerateScopedName e options))
       \<or> (\<exists>n. ev = Require n) \<or> (\<exists>w. ev = ConsoleWarn w)"
  using assms
  by (auto simp: requireCssModule_def split: prod.splits sum.splits
      dest: buildRunner_events getTokens_events)

lemma prepare_styl_ignores_options:
  "test_styl p \<Longrightarrow> prepare e p fo = prepare e p None"
  by (simp add: prepare_def Let_def split: option.splits)

lemma demo_resolveGenerateScopedName:
  "resolveGenerateScopedName demo_env pattern_options
     = (genericNames demo_env ''[local]'' ''/ctx'', [GenericNames ''[local]'' ''/ctx''])"
  by (simp add: resolveGenerateScopedName_def pattern_options_def Let_def)

lemma demo_getExtraPlugins:
  "getExtraPlugins demo_env (Some scss_options)
     = (Inr [Loaded (Module ''postcss-nested'' None True)], [Require ''postcss-nested''])"
  by (simp add: getExtraPlugins_def scss_options_def loadPlugin_def demo_env_def demo_require_def)

lemma demo_getSyntax:
  "getSyntax demo_env (Some scss_options)
     = (Inr (Some (Module ''postcss-scss'' None True)), [Require ''postcss-scss''])"
  by (simp add: getSyntax_def scss_options_def demo_env_def demo_require_def)

lemma fetchAll_cong:
  "(\<And>to. to \<in> set tos \<Longrightarrow> f to from_path = g to from_path)
     \<Longrightarrow> fetchAll f from_path tos = fetchAll g from_path tos"
  by (induction tos) (auto split: prod.splits sum.splits)

lemma getTokens_Suc:
  assumes "prepare e q fo = (Inr (src, popts), l0)"
    and "transform e r src popts = Inr sheet"
    and "parserFetch r = Some captured"
  shows "getTokens (Suc d) e r q fo
           = (case fetchAll (\<lambda>to from_path.
                      getTokens d e r (resolve e (dirname e q) to) captured)
                    q (dependencies sheet) of
                (Inl err, l') \<Rightarrow> (Inl err, l0 @ l')
              | (Inr ts, l') \<Rightarrow>
                  (Inr (assemble sheet ts), l0 @ l' @ map ConsoleWarn (warnings sheet)))"
proof -
  have "fetchAll (fetch d e r captured) q (dependencies sheet)
          = fetchAll (\<lambda>to from_path. getTokens d e r (resolve e (dirname e q) to) captured)
              q (dependencies sheet)"
    by (rule fetchAll_cong) simp
  then show ?thesis
    using assms prepare_from_file [OF assms(1)]
    by (simp add: process_def split: prod.splits sum.splits)
qed

lemma rewarn_getSyntax: "getSyntax (rewarn W e) fo = getSyntax e fo"
  by (simp add: getSyntax_def rewarn_def split: option.splits)

lemma rewarn_stylusCompiler: "stylusCompiler (rewarn W e) p src = stylusCompiler e p src"
  by (simp add: stylusCompiler_def rewarn_def Let_def split: option.splits)

lemma rewarn_prepare: "prepare (rewarn W e) p fo = prepare e p fo"
proof -
  have "readFileSync (rewarn W e) = readFileSync e" "stylus_render (rewarn W e) = stylus_render e"
    by (simp_all add: rewarn_def)
  then show ?thesis
    by (simp add: prepare_def Let_def rewarn_getSyntax rewarn_stylusCompiler
        split: option.splits prod.splits sum.splits)
qed

lemma fetchAll_fst_cong:
  "(\<And>to. to \<in> set tos \<Longrightarrow> fst (f to from_path) = fst (g to from_path))
     \<Longrightarrow> fst (fetchAll f from_path tos) = fst (fetchAll g from_path tos)"
proof (induction tos)
  case Nil
  then show ?case by simp
next
  case (Cons to tos)
  have "fst (f to from_path) = fst (g to from_path)"
    and "fst (fetchAll f from_path tos) = fst (fetchAll g from_path tos)"
    using Cons by simp_all
  then show ?case
    by (cases "f to from_path"; cases "g to from_path"; cases "fetchAll f from_path tos";
        cases "fetchAll g from_path tos")
      (auto split: sum.splits)
qed

lemma rewarn_process:
  assumes "\<And>captured to from_path. fst (call' captured to from_path) = fst (call captured to from_path)"
  shows "map_sum id fst (fst (process (rewarn W e) r src options call'))
           = map_sum id fst (fst (process e r src options call))"
proof (cases "transform e r src options")
  case (Inl msg)
  then show ?thesis
    by (simp add: process_def rewarn_def)
next
  case (Inr sheet)
  show ?thesis
  proof (cases "parserFetch r")
    case None
    with Inr show ?thesis
      by (simp add: process_def rewarn_def)
  next
    case (Some captured)
    have "fst (fetchAll (call' captured) (from_file options) (dependencies sheet))
            = fst (fetchAll (call captured) (from_file options) (dependencies sheet))"
      by (rule fetchAll_fst_cong) (rule assms)
    with Inr Some show ?thesis
      by (cases "fetchAll (call' captured) (from_file options) (dependencies sheet)";
          cases "fetchAll (call captured) (from_file options) (dependencies sheet)")
        (auto simp: process_def rewarn_def split: sum.splits)
  qed
qed

lemma rewarn_getTokens:
  "fst (getTokens d (rewarn W e) r p fo) = fst (getTokens d e r p fo)"
proof (induction d arbitrary: p fo)
  case 0
  then show ?case by simp
next
  case (Suc d)
  obtain r1 l1 where p1: "prepare e p fo = (r1, l1)" by (cases "prepare e p fo")
  show ?case
  proof (cases r1)
    case (Inl err)
    with p1 show ?thesis by (simp add: rewarn_prepare)
  next
    case (Inr so)
    obtain src options where so: "so = (src, options)" by (cases so)
    have "map_sum id fst (fst (process (rewarn W e) r src options (fetch d (rewarn W e) r)))
            = map_sum id fst (fst (process e r src options (fetch d e r)))"
    proof (rule rewarn_process)
      fix captured to from_path
      have "resolve (rewarn W e) = resolve e" and "dirname (rewarn W e) = dirname e"
        by (simp_all add: rewarn_def)
      then show "fst (fetch d (rewarn W e) r captured to from_path)
                   = fst (fetch d e r captured to from_path)"
        by (simp add: Suc.IH)
    qed
    then show ?thesis
      using p1 Inr so
      by (cases "process (rewarn W e) r src options (fetch d (rewarn W e) r)";
          cases "process e r src options (fetch d e r)")
        (auto simp: rewarn_prepare split: sum.splits)
  qed
qed

lemma fetchAll_fails:
  "to \<in> set tos \<Longrightarrow> isl (fst (f to from_path)) \<Longrightarrow> isl (fst (fetchAll f from_path tos))"
proof (induction tos)
  case Nil
  then show ?case by simp
next
  case (Cons x tos)
  then show ?case
    by (cases "f x from_path"; cases "fetchAll f from_path tos")
      (auto split: sum.splits)
qed

lemma fetchAll_error_source:
  "fst (fetchAll f from_path tos) = Inl err
     \<Longrightarrow> \<exists>to \<in> set tos. fst (f to from_path) = Inl err"
proof (induction tos)
  case Nil
  then show ?case by simp
next
  case (Cons x tos)
  then show ?case
    by (cases "f x from_path"; cases "fetchAll f from_path tos")
      (auto split: sum.splits)
qed

lemma dependenciesOf_Some:
  assumes "dependenciesOf e r fo p = Some ds"
  obtains src popts l sheet where
    "prepare e p fo = (Inr (src, popts), l)" "transform e r src popts = Inr sheet"
    "ds = map (\<lambda>to. resolve e (dirname e p) to) (dependencies sheet)"
  using assms
  by (auto simp: dependenciesOf_def split: prod.splits sum.splits)

lemma getTokens_dependency_fails:
  assumes pf: "parserFetch r = Some fo"
    and deps: "dependenciesOf e r fo a = Some da" and b: "b \<in> set da"
    and fails: "isl (fst (getTokens d e r b fo))"
  shows "isl (fst (getTokens (Suc d) e r a fo))"
proof -
  from deps obtain src popts l sheet where
    p: "prepare e a fo = (Inr (src, popts), l)" and t: "transform e r src popts = Inr sheet"
    and da: "da = map (\<lambda>to. resolve e (dirname e a) to) (dependencies sheet)"
    by (rule dependenciesOf_Some)
  from b da obtain to where to: "to \<in> set (dependencies sheet)"
    and "b = resolve e (dirname e a) to"
    by auto
  with fails have "isl (fst (getTokens d e r (resolve e (dirname e a) to) fo))"
    by simp
  with to have "isl (fst (fetchAll (\<lambda>to from_path.
                      getTokens d e r (resolve e (dirname e a) to) fo)
                    a (dependencies sheet)))"
    by (rule fetchAll_fails)
  then show ?thesis
    unfolding getTokens_Suc [OF p t pf]
    by (auto split: prod.splits sum.splits)
qed

lemma getTokens_only_RangeError:
  assumes pf: "parserFetch r = Some fo"
    and closed: "\<forall>p \<in> S. \<exists>ds. dependenciesOf e r fo p = Some ds \<and> set ds \<subseteq> S"
  shows "p \<in> S \<Longrightarrow> fst (getTokens d e r p fo) = Inl err \<Longrightarrow> err = RangeError"
proof (induction d arbitrary: p)
  case 0
  then show ?case by simp
next
  case (Suc d)
  from closed Suc.prems(1) obtain ds where
    ds: "dependenciesOf e r fo p = Some ds" and sub: "set ds \<subseteq> S"
    by blast
  from ds obtain src popts l sheet where
    p: "prepare e p fo = (Inr (src, popts), l)" and t: "transform e r src popts = Inr sheet"
    and dm: "ds = map (\<lambda>to. resolve e (dirname e p) to) (dependencies sheet)"
    by (rule dependenciesOf_Some)
  from Suc.prems(2) have "fst (fetchAll (\<lambda>to from_path.
                      getTokens d e r (resolve e (dirname e p) to) fo)
                    p (dependencies sheet)) = Inl err"
    unfolding getTokens_Suc [OF p t pf]
    by (auto split: prod.splits sum.splits)
  then obtain to where to: "to \<in> set (dependencies sheet)"
    and err: "fst (getTokens d e r (resolve e (dirname e p) to) fo) = Inl err"
    by (auto dest: fetchAll_error_source)
  from to dm sub have "resolve e (dirname e p) to \<in> S"
    by auto
  then show ?case
    using err by (rule Suc.IH)
qed

lemma demo_dirname_proj: "dirname demo_env (''/proj/'' @ name) = ''/proj''" if "CHR ''/'' \<notin> set name"
  using that lastIndexOf_last [of "CHR ''/''" name "''/proj''"]
  by (simp add: demo_env_def demo_dirname_def)

lemma demo_resolve_a:
  "resolve demo_env (dirname demo_env ''/proj/a.css'') ''./b.css'' = ''/proj/b.css''"
  "resolve demo_env (dirname demo_env ''/proj/b.css'') ''./a.css'' = ''/proj/a.css''"
  "resolve demo_env (dirname demo_env ''/proj/main.css'') ''./shared.scss'' = ''/proj/shared.scss''"
  "resolve demo_env (dirname demo_env ''/proj/a.css'') ''./missing.css'' = ''/proj/missing.css''"
  using demo_dirname_proj [of "''a.css''"] demo_dirname_proj [of "''b.css''"]
    demo_dirname_proj [of "''main.css''"]
  by (simp_all add: demo_env_def demo_resolve_def)

lemma demo_buildRunner_mixed:
  "buildRunner demo_env ''/proj/main.css'' mixed_options = (Inr plain_runner, [])"
proof -
  have "extension_of ''/proj/main.css'' = ''.css''"
    using extension_of_dotted [of "''css''" "''/proj/main''"] by simp
  then show ?thesis
    by (simp add: buildRunner_def resolveGenerateScopedName_def getFiletypeOptions_def
        mixed_options_def getExtraPlugins_def plain_options_def plain_runner_def)
qed

lemma demo_prepare_shared:
  "prepare demo_env ''/proj/shared.scss'' (Some plain_options)
     = (Inr ([], \<lparr>from_file = ''/proj/shared.scss'', syntax_opt = Some None\<rparr>), [])"
  by (simp add: prepare_def demo_env_def demo_files_def test_styl_eval getSyntax_def
      plain_options_def)

lemma demo_getTokens_shared:
  "getTokens (Suc d) demo_env plain_runner ''/proj/shared.scss'' (Some plain_options)
     = (Inr [(''root'', ''/proj/shared.scss'')], [ConsoleWarn ''empty stylesheet''])"
  by (simp add: demo_prepare_shared process_def)
    (simp add: demo_env_def demo_transform_def plain_runner_def)

lemma demo_cycle_dependencies:
  "dependenciesOf demo_env bare_runner None ''/proj/a.css'' = Some [''/proj/b.css'']"
  "dependenciesOf demo_env bare_runner None ''/proj/b.css'' = Some [''/proj/a.css'']"
proof -
  have p: "prepare demo_env ''/proj/a.css'' None
             = (Inr (''./b.css'', \<lparr>from_file = ''/proj/a.css'', syntax_opt = None\<rparr>), [])"
    "prepare demo_env ''/proj/b.css'' None
             = (Inr (''./a.css'', \<lparr>from_file = ''/proj/b.css'', syntax_opt = None\<rparr>), [])"
    by (simp_all add: prepare_def demo_env_def demo_files_def test_styl_eval)
  have t: "transform demo_env = demo_transform"
    by (simp add: demo_env_def)
  show "dependenciesOf demo_env bare_runner None ''/proj/a.css'' = Some [''/proj/b.css'']"
    "dependenciesOf demo_env bare_runner None ''/proj/b.css'' = Some [''/proj/a.css'']"
    by (simp_all add: dependenciesOf_def p t demo_transform_def demo_resolve_a)
qed

lemma gap_prepare:
  "prepare gap_env ''/proj/a.css'' None
     = (Inr (''first'', \<lparr>from_file = ''/proj/a.css'', syntax_opt = None\<rparr>), [])"
  "prepare gap_env ''/proj/b.css'' None
     = (Inr (''./a.css'', \<lparr>from_file = ''/proj/b.css'', syntax_opt = None\<rparr>), [])"
  "prepare gap_env ''/proj/missing.css'' None = (Inl (ENOENT ''/proj/missing.css''), [])"
  by (simp_all add: prepare_def gap_env_def test_styl_eval)

lemma gap_paths: "dirname gap_env = dirname demo_env" "resolve gap_env = resolve demo_env"
  by (simp_all add: gap_env_def)

lemma gap_dependencies:
  "dependenciesOf gap_env bare_runner None ''/proj/a.css''
     = Some [''/proj/missing.css'', ''/proj/b.css'']"
  "dependenciesOf gap_env bare_runner None ''/proj/b.css'' = Some [''/proj/a.css'']"
proof -
  have t: "transform gap_env = gap_transform"
    by (simp add: gap_env_def)
  show "dependenciesOf gap_env bare_runner None ''/proj/a.css''
          = Some [''/proj/missing.css'', ''/proj/b.css'']"
    "dependenciesOf gap_env bare_runner None ''/proj/b.css'' = Some [''/proj/a.css'']"
    by (simp_all add: dependenciesOf_def gap_prepare t gap_transform_def gap_paths demo_resolve_a)
qed

lemma gap_getTokens:
  "fst (getTokens (Suc (Suc d)) gap_env bare_runner ''/proj/a.css'' None)
     = Inl (ENOENT ''/proj/missing.css'')"
proof -
  have t: "transform gap_env bare_runner ''first''
             \<lparr>from_file = ''/proj/a.css'', syntax_opt = None\<rparr>
           = Inr \<lparr>dependencies = [''./missing.css'', ''./b.css''],
                   assemble = (\<lambda>ts. (''root'', ''/proj/a.css'') # concat ts),
                   warnings = []\<rparr>"
    by (simp add: gap_env_def gap_transform_def)
  have pf: "parserFetch bare_runner = Some None"
    by (simp add: bare_runner_def)
  have m: "getTokens (Suc d) gap_env bare_runner ''/proj/missing.css'' None
             = (Inl (ENOENT ''/proj/missing.css''), [])"
    by (simp add: gap_prepare)
  show ?thesis
    unfolding getTokens_Suc [OF gap_prepare(1) t pf]
    by (simp add: gap_paths demo_resolve_a m del: getTokens.simps)
qed

section \<open>The claims\<close>

text \<open>
  C1. In the runner that the default export builds, the \<open>fetch\<close> closure of the parsing
  stage holds the filetype options computed from the top-level source file. A call
  \<open>fetch(to, from)\<close> resolves \<open>to\<close> against the directory of \<open>from\<close> and extracts the tokens
  of that path with these options. So for every file that the runner processes, top-level
  or imported and whatever its extension, each reference is extracted with the options of
  the top-level file; the entries of \<open>filetypes\<close> under other keys than the extension of
  the top-level file have no influence on the run.
\<close>
theorem fetch_reuses_top_level_filetype_options:
  assumes "buildRunner e cssSourceFilePath options = (Inr r, l)"
  shows "parserFetch r = Some (getFiletypeOptions cssSourceFilePath (filetypes options))
       \<and> (\<forall>d to from_path.
             fetch d e r (getFiletypeOptions cssSourceFilePath (filetypes options)) to from_path
               = getTokens d e r (resolve e (dirname e from_path) to)
                   (getFiletypeOptions cssSourceFilePath (filetypes options)))
       \<and> (\<forall>d q fo src popts l0 sheet.
             prepare e q fo = (Inr (src, popts), l0) \<and> transform e r src popts = Inr sheet \<longrightarrow>
             getTokens (Suc d) e r q fo
               = (case fetchAll (\<lambda>to from_path.
                          getTokens d e r (resolve e (dirname e q) to)
                            (getFiletypeOptions cssSourceFilePath (filetypes options)))
                        q (dependencies sheet) of
                    (Inl err, l') \<Rightarrow> (Inl err, l0 @ l')
                  | (Inr ts, l') \<Rightarrow>
                      (Inr (assemble sheet ts), l0 @ l' @ map ConsoleWarn (warnings sheet))))
       \<and> (\<forall>d ft ft'.
             filetypes options = Some ft
             \<and> ft' (extension_of cssSourceFilePath) = ft (extension_of cssSourceFilePath) \<longrightarrow>
             requireCssModule d e cssSourceFilePath (options\<lparr>filetypes := Some ft'\<rparr>)
               = requireCssModule d e cssSourceFilePath options)"
proof -
  have pf: "parserFetch r = Some (getFiletypeOptions cssSourceFilePath (filetypes options))"
    using assms by (rule buildRunner_parserFetch)
  have indep: "requireCssModule d e cssSourceFilePath (options\<lparr>filetypes := Some ft'\<rparr>)
                 = requireCssModule d e cssSourceFilePath options"
    if "filetypes options = Some ft"
      and "ft' (extension_of cssSourceFilePath) = ft (extension_of cssSourceFilePath)"
    for d ft ft'
  proof -
    have fo: "getFiletypeOptions cssSourceFilePath (Some ft')
                = getFiletypeOptions cssSourceFilePath (filetypes options)"
      using that by (simp add: getFiletypeOptions_def)
    have rg: "resolveGenerateScopedName e (options\<lparr>filetypes := Some ft'\<rparr>)
                = resolveGenerateScopedName e options"
      by (simp add: resolveGenerateScopedName_def Let_def
          split: option.splits GenerateScopedNameConfigurationType.splits)
    have "buildRunner e cssSourceFilePath (options\<lparr>filetypes := Some ft'\<rparr>)
            = buildRunner e cssSourceFilePath options"
      by (simp add: buildRunner_def Let_def fo rg)
    then show ?thesis
      by (simp add: requireCssModule_def fo split: prod.splits sum.splits)
  qed
  have step: "getTokens (Suc d) e r q fo
               = (case fetchAll (\<lambda>to from_path.
                          getTokens d e r (resolve e (dirname e q) to)
                            (getFiletypeOptions cssSourceFilePath (filetypes options)))
                        q (dependencies sheet) of
                    (Inl err, l') \<Rightarrow> (Inl err, l0 @ l')
                  | (Inr ts, l') \<Rightarrow>
                      (Inr (assemble sheet ts), l0 @ l' @ map ConsoleWarn (warnings sheet)))"
    if "prepare e q fo = (Inr (src, popts), l0)" and "transform e r src popts = Inr sheet"
    for d q fo src popts l0 sheet
    using that pf by (rule getTokens_Suc)
  have res: "fetch d e r fo to from_path = getTokens d e r (resolve e (dirname e from_path) to) fo"
    for d fo to from_path
    by simp
  from pf res step indep show ?thesis
    by blast
qed

theorem fetch_reuses_top_level_filetype_options_witness:
  "buildRunner demo_env ''/proj/main.css'' mixed_options = (Inr plain_runner, [])
   \<and> parserFetch plain_runner = Some (Some plain_options)
   \<and> fetch 2 demo_env plain_runner (Some plain_options) ''./shared.scss'' ''/proj/main.css''
       = getTokens 2 demo_env plain_runner ''/proj/shared.scss'' (Some plain_options)
   \<and> getTokens 2 demo_env plain_runner ''/proj/shared.scss'' (Some plain_options)
       = (Inr [(''root'', ''/proj/shared.scss'')], [ConsoleWarn ''empty stylesheet''])"
proof -
  have fo: "getFiletypeOptions ''/proj/main.css'' (filetypes mixed_options) = Some plain_options"
    using extension_of_dotted [of "''css''" "''/proj/main''"]
    by (simp add: getFiletypeOptions_def mixed_options_def)
  have "getTokens 2 demo_env plain_runner ''/proj/shared.scss'' (Some plain_options)
       = (Inr [(''root'', ''/proj/shared.scss'')], [ConsoleWarn ''empty stylesheet''])"
    using demo_getTokens_shared [of 1] by (simp only: numeral_2_eq_2 One_nat_def)
  then show ?thesis
    using fetch_reuses_top_level_filetype_options [OF demo_buildRunner_mixed]
    by (simp add: fo demo_resolve_a demo_buildRunner_mixed del: getTokens.simps fetch.simps)
qed




text \<open>
  C3. If \<open>options.generateScopedName\<close> is a function, it is the generator of the scoping
  stage as it is, and the name-generator factory is not called at any point of the run;
  otherwise the generator is the one the factory builds from the supplied pattern (the
  default pattern when none or an empty one is supplied) and \<open>options.context\<close> (the
  current working directory when none or an empty one is supplied).
\<close>
theorem direct_generator_bypasses_factory:
  "(generateScopedName options = Some (GenFunction f) \<longrightarrow>
      resolveGenerateScopedName e options = (f, [])
      \<and> (\<forall>r l. buildRunner e p options = (Inr r, l) \<longrightarrow> scopeGenerator r = Some f)
      \<and> (\<forall>d pattern ctx. GenericNames pattern ctx \<notin> set (snd (requireCssModule d e p options))))
   \<and> ((\<forall>g. generateScopedName options \<noteq> Some (GenFunction g)) \<longrightarrow>
      (\<exists>pattern ctx.
         resolveGenerateScopedName e options
           = (genericNames e pattern ctx, [GenericNames pattern ctx])
       \<and> (\<forall>r l. buildRunner e p options = (Inr r, l)
             \<longrightarrow> scopeGenerator r = Some (genericNames e pattern ctx))
       \<and> (\<forall>s. generateScopedName options = Some (GenPattern s) \<and> s \<noteq> [] \<longrightarrow> pattern = s)
       \<and> (generateScopedName options = None \<or> generateScopedName options = Some (GenPattern [])
             \<longrightarrow> pattern = optionsDefaults_generateScopedName e)
       \<and> (\<forall>c. context_opt options = Some c \<and> c \<noteq> [] \<longrightarrow> ctx = c)
       \<and> (context_opt options = None \<or> context_opt options = Some [] \<longrightarrow> ctx = cwd e)))"
proof (intro conjI impI)
  assume f: "generateScopedName options = Some (GenFunction f)"
  then show r: "resolveGenerateScopedName e options = (f, [])"
    by (simp add: resolveGenerateScopedName_def)
  show "\<forall>r l. buildRunner e p options = (Inr r, l) \<longrightarrow> scopeGenerator r = Some f"
    using r by (auto dest: buildRunner_scopeGenerator)
  show "\<forall>d pattern ctx. GenericNames pattern ctx \<notin> set (snd (requireCssModule d e p options))"
    using r by (auto dest: requireCssModule_events)
next
  assume nf: "\<forall>g. generateScopedName options \<noteq> Some (GenFunction g)"
  define pattern where "pattern =
    (case generateScopedName options of
       Some (GenPattern s) \<Rightarrow> if s \<noteq> [] then s else optionsDefaults_generateScopedName e
     | _ \<Rightarrow> optionsDefaults_generateScopedName e)"
  define ctx where "ctx =
    (case context_opt options of Some c \<Rightarrow> if c \<noteq> [] then c else cwd e | None \<Rightarrow> cwd e)"
  have r: "resolveGenerateScopedName e options
             = (genericNames e pattern ctx, [GenericNames pattern ctx])"
    using nf
    by (auto simp: resolveGenerateScopedName_def pattern_def ctx_def Let_def
        split: option.splits GenerateScopedNameConfigurationType.splits)
  have b: "\<forall>r l. buildRunner e p options = (Inr r, l)
             \<longrightarrow> scopeGenerator r = Some (genericNames e pattern ctx)"
    using r by (auto dest: buildRunner_scopeGenerator)
  have "\<forall>s. generateScopedName options = Some (GenPattern s) \<and> s \<noteq> [] \<longrightarrow> pattern = s"
    and "generateScopedName options = None \<or> generateScopedName options = Some (GenPattern [])
           \<longrightarrow> pattern = optionsDefaults_generateScopedName e"
    and "\<forall>c. context_opt options = Some c \<and> c \<noteq> [] \<longrightarrow> ctx = c"
    and "context_opt options = None \<or> context_opt options = Some [] \<longrightarrow> ctx = cwd e"
    by (auto simp: pattern_def ctx_def)
  with r b show "\<exists>pattern ctx.
         resolveGenerateScopedName e options
           = (genericNames e pattern ctx, [GenericNames pattern ctx])
       \<and> (\<forall>r l. buildRunner e p options = (Inr r, l)
             \<longrightarrow> scopeGenerator r = Some (genericNames e pattern ctx))
       \<and> (\<forall>s. generateScopedName options = Some (GenPattern s) \<and> s \<noteq> [] \<longrightarrow> pattern = s)
       \<and> (generateScopedName options = None \<or> generateScopedName options = Some (GenPattern [])
             \<longrightarrow> pattern = optionsDefaults_generateScopedName e)
       \<and> (\<forall>c. context_opt options = Some c \<and> c \<noteq> [] \<longrightarrow> ctx = c)
       \<and> (context_opt options = None \<or> context_opt options = Some [] \<longrightarrow> ctx = cwd e)"
    by blast
qed

theorem direct_generator_bypasses_factory_witness:
  "resolveGenerateScopedName demo_env direct_options = (suffix_generator, [])
   \<and> GenericNames ''[local]'' ''/proj'' \<notin> set (snd (requireCssModule 3 demo_env ''/proj/main.css'' direct_options))
   \<and> resolveGenerateScopedName demo_env pattern_options
       = (genericNames demo_env ''[local]'' ''/ctx'', [GenericNames ''[local]'' ''/ctx''])"
proof -
  have h1: "generateScopedName direct_options = Some (GenFunction suffix_generator)"
    by (simp add: direct_options_def)
  have h2: "\<forall>g. generateScopedName pattern_options \<noteq> Some (GenFunction g)"
    by (simp add: pattern_options_def)
  have h3: "generateScopedName pattern_options = Some (GenPattern ''[local]'') \<and> ''[local]'' \<noteq> []"
    by (simp add: pattern_options_def)
  have h4: "context_opt pattern_options = Some ''/ctx'' \<and> ''/ctx'' \<noteq> []"
    by (simp add: pattern_options_def)
  have a: "resolveGenerateScopedName demo_env direct_options = (suffix_generator, [])"
    and b: "\<forall>d pattern ctx. GenericNames pattern ctx
              \<notin> set (snd (requireCssModule d demo_env ''/proj/main.css'' direct_options))"
    using direct_generator_bypasses_factory
            [of direct_options suffix_generator demo_env "''/proj/main.css''"] h1
    by blast+
  obtain pattern ctx where c: "resolveGenerateScopedName demo_env pattern_options
           = (genericNames demo_env pattern ctx, [GenericNames pattern ctx])"
    and d: "\<forall>s. generateScopedName pattern_options = Some (GenPattern s) \<and> s \<noteq> []
              \<longrightarrow> pattern = s"
    and e: "\<forall>c. context_opt pattern_options = Some c \<and> c \<noteq> [] \<longrightarrow> ctx = c"
    using direct_generator_bypasses_factory
            [of pattern_options suffix_generator demo_env "''/proj/main.css''"] h2
    by blast
  have "pattern = ''[local]''" and "ctx = ''/ctx''"
    using d e h3 h4 by blast+
  with a b c show ?thesis by simp
qed

text \<open>
  C4. The pre-compile path and the \<open>syntax\<close> option exclude each other. For a path that
  matches \<open>.styl\<close>, once the file is read and stylus renders it, the text handed to the
  pipeline is the rendered one and the options carry no \<open>syntax\<close>, whatever the filetype
  options are. For a path that does not match, the text is the file as read, and the
  \<open>syntax\<close> option is set to what \<open>getSyntax\<close> returns when filetype options were resolved
  and is not set when there are none. \<open>getTokens\<close> runs the pipeline on exactly that text
  and those options. Conversely, options that carry a \<open>syntax\<close> come only from a path that
  does not match with filetype options resolved.
\<close>
theorem styl_excludes_syntax_option:
  "(test_styl p \<and> readFileSync e p = Some raw \<and> stylusCompiler e p raw = (Inr c, l)
      \<and> stylus_render e c = Inr res \<longrightarrow>
      prepare e p fo = (Inr (res, \<lparr>from_file = p, syntax_opt = None\<rparr>), l)
    \<and> getTokens (Suc d) e r p fo
        = (case process e r res \<lparr>from_file = p, syntax_opt = None\<rparr> (fetch d e r) of
             (Inl err, l') \<Rightarrow> (Inl err, l @ l')
           | (Inr (tokens, ws), l') \<Rightarrow> (Inr tokens, l @ l' @ map ConsoleWarn ws)))
   \<and> (\<not> test_styl p \<and> readFileSync e p = Some raw \<and> fo \<noteq> None
      \<and> getSyntax e fo = (Inr s, l) \<longrightarrow>
      prepare e p fo = (Inr (raw, \<lparr>from_file = p, syntax_opt = Some s\<rparr>), l)
    \<and> getTokens (Suc d) e r p fo
        = (case process e r raw \<lparr>from_file = p, syntax_opt = Some s\<rparr> (fetch d e r) of
             (Inl err, l') \<Rightarrow> (Inl err, l @ l')
           | (Inr (tokens, ws), l') \<Rightarrow> (Inr tokens, l @ l' @ map ConsoleWarn ws)))
   \<and> (\<not> test_styl p \<and> readFileSync e p = Some raw \<and> fo = None \<longrightarrow>
      prepare e p fo = (Inr (raw, \<lparr>from_file = p, syntax_opt = None\<rparr>), []))
   \<and> (\<forall>src options l.
        prepare e p fo = (Inr (src, options), l) \<longrightarrow>
          (test_styl p \<longrightarrow>
             syntax_opt options = None
           \<and> (\<exists>raw c. readFileSync e p = Some raw \<and> stylusCompiler e p raw = (Inr c, l)
                      \<and> stylus_render e c = Inr src))
        \<and> (syntax_opt options \<noteq> None \<longrightarrow> \<not> test_styl p \<and> fo \<noteq> None)
        \<and> (\<not> test_styl p \<and> fo \<noteq> None \<longrightarrow>
             (\<exists>s. getSyntax e fo = (Inr s, l) \<and> syntax_opt options = Some s)
           \<and> readFileSync e p = Some src))"
proof (intro conjI impI allI)
  assume a: "test_styl p \<and> readFileSync e p = Some raw \<and> stylusCompiler e p raw = (Inr c, l)
      \<and> stylus_render e c = Inr res"
  then show pr: "prepare e p fo = (Inr (res, \<lparr>from_file = p, syntax_opt = None\<rparr>), l)"
    by (simp add: prepare_def Let_def)
  show "getTokens (Suc d) e r p fo
        = (case process e r res \<lparr>from_file = p, syntax_opt = None\<rparr> (fetch d e r) of
             (Inl err, l') \<Rightarrow> (Inl err, l @ l')
           | (Inr (tokens, ws), l') \<Rightarrow> (Inr tokens, l @ l' @ map ConsoleWarn ws))"
    by (simp add: pr)
next
  assume a: "\<not> test_styl p \<and> readFileSync e p = Some raw \<and> fo \<noteq> None
      \<and> getSyntax e fo = (Inr s, l)"
  then show pr: "prepare e p fo = (Inr (raw, \<lparr>from_file = p, syntax_opt = Some s\<rparr>), l)"
    by (simp add: prepare_def Let_def)
  show "getTokens (Suc d) e r p fo
        = (case process e r raw \<lparr>from_file = p, syntax_opt = Some s\<rparr> (fetch d e r) of
             (Inl err, l') \<Rightarrow> (Inl err, l @ l')
           | (Inr (tokens, ws), l') \<Rightarrow> (Inr tokens, l @ l' @ map ConsoleWarn ws))"
    by (simp add: pr)
next
  assume "\<not> test_styl p \<and> readFileSync e p = Some raw \<and> fo = None"
  then show "prepare e p fo = (Inr (raw, \<lparr>from_file = p, syntax_opt = None\<rparr>), [])"
    by (simp add: prepare_def Let_def)
next
  fix src options l
  assume "prepare e p fo = (Inr (src, options), l)" and "test_styl p"
  then show "syntax_opt options = None"
    and "\<exists>raw c. readFileSync e p = Some raw \<and> stylusCompiler e p raw = (Inr c, l)
                      \<and> stylus_render e c = Inr src"
    by (auto simp: prepare_def Let_def split: option.splits if_splits prod.splits sum.splits)
next
  fix src options l
  assume "prepare e p fo = (Inr (src, options), l)" and "syntax_opt options \<noteq> None"
  then show "\<not> test_styl p" and "fo \<noteq> None"
    by (auto simp: prepare_def Let_def split: option.splits if_splits prod.splits sum.splits)
next
  fix src options l
  assume "prepare e p fo = (Inr (src, options), l)" and "\<not> test_styl p \<and> fo \<noteq> None"
  then show "\<exists>s. getSyntax e fo = (Inr s, l) \<and> syntax_opt options = Some s"
    and "readFileSync e p = Some src"
    by (auto simp: prepare_def Let_def split: option.splits if_splits prod.splits sum.splits)
qed

theorem styl_excludes_syntax_option_witness:
  "test_styl ''/proj/theme.styl''
   \<and> prepare demo_env ''/proj/theme.styl'' (Some scss_options)
       = (Inr ([], \<lparr>from_file = ''/proj/theme.styl'', syntax_opt = None\<rparr>), [])
   \<and> \<not> test_styl ''/proj/main.css''
   \<and> prepare demo_env ''/proj/main.css'' (Some scss_options)
       = (Inr (''./shared.scss'',
               \<lparr>from_file = ''/proj/main.css'',
                  syntax_opt = Some (Some (Module ''postcss-scss'' None True))\<rparr>),
          [Require ''postcss-scss''])
   \<and> prepare demo_env ''/proj/main.css'' None
       = (Inr (''./shared.scss'', \<lparr>from_file = ''/proj/main.css'', syntax_opt = None\<rparr>), [])"
proof -
  define c where "c = \<lparr>str = [], filename = Some ''/proj/theme.styl'', imported = [],
                       defined = [(''__WEB__'', True)], used = []\<rparr>"
  have t: "test_styl ''/proj/theme.styl''" and m: "\<not> test_styl ''/proj/main.css''"
    by (simp_all add: test_styl_eval)
  have r1: "readFileSync demo_env ''/proj/theme.styl'' = Some []"
    and r2: "readFileSync demo_env ''/proj/main.css'' = Some ''./shared.scss''"
    by (simp_all add: demo_env_def demo_files_def)
  have s1: "stylusCompiler demo_env ''/proj/theme.styl'' [] = (Inr c, [])"
    by (simp add: stylusCompiler_def demo_env_def demo_files_def c_def)
  have s2: "stylus_render demo_env c = Inr []"
    by (simp add: demo_env_def demo_render_def c_def)
  have a: "prepare demo_env ''/proj/theme.styl'' (Some scss_options)
       = (Inr ([], \<lparr>from_file = ''/proj/theme.styl'', syntax_opt = None\<rparr>), [])"
    using styl_excludes_syntax_option
            [of "''/proj/theme.styl''" demo_env "[]" c "[]" "[]" "Some scss_options"]
          t r1 s1 s2
    by blast
  have b: "prepare demo_env ''/proj/main.css'' (Some scss_options)
       = (Inr (''./shared.scss'',
               \<lparr>from_file = ''/proj/main.css'',
                  syntax_opt = Some (Some (Module ''postcss-scss'' None True))\<rparr>),
          [Require ''postcss-scss''])"
    using styl_excludes_syntax_option
            [of "''/proj/main.css''" demo_env "''./shared.scss''" c "[Require ''postcss-scss'']"
               "[]" "Some scss_options" _ _ "Some (Module ''postcss-scss'' None True)"]
          m r2 demo_getSyntax
    by blast
  have d: "prepare demo_env ''/proj/main.css'' None
       = (Inr (''./shared.scss'', \<lparr>from_file = ''/proj/main.css'', syntax_opt = None\<rparr>), [])"
    using styl_excludes_syntax_option
            [of "''/proj/main.css''" demo_env "''./shared.scss''" c "[]" "[]" None]
          m r2
    by blast
  from t m a b d show ?thesis
    by blast
qed

text \<open>
  C5. When stylus reports an error for a \<open>.styl\<close> source file, \<open>getTokens\<close> and the default
  export do not return a token mapping: they throw the generic error whose message is
  the string form of the reported error, and the reported message is a contiguous part
  of it.
\<close>
theorem stylus_error_is_wrapped:
  assumes "test_styl p" and "readFileSync e p = Some raw"
    and "stylusCompiler e p raw = (Inr c, l)" and "stylus_render e c = Inl err"
  shows "getTokens (Suc d) e r p fo = (Inl (Error (errorToString err)), l)
       \<and> sublist (errMessage err) (errorToString err)
       \<and> (\<forall>l0. buildRunner e p options = (Inr r, l0) \<longrightarrow>
             requireCssModule (Suc d) e p options = (Inl (Error (errorToString err)), l0 @ l))"
proof -
  have pr: "prepare e p fo' = (Inl (Error (errorToString err)), l)" for fo'
    using assms by (simp add: prepare_def Let_def)
  have gt: "getTokens (Suc d) e r p fo' = (Inl (Error (errorToString err)), l)" for fo'
    by (simp add: pr)
  have "sublist (errMessage err) ((errName err @ '': '') @ errMessage err)"
    by (rule sublist_append_leftI)
  then have "sublist (errMessage err) (errorToString err)"
    by (simp add: errorToString_def)
  with gt show ?thesis
    by (simp add: requireCssModule_def del: getTokens.simps)
qed

theorem stylus_error_is_wrapped_witness:
  "test_styl ''/proj/bad.styl''
   \<and> readFileSync demo_env ''/proj/bad.styl'' = Some ''bad''
   \<and> getTokens (Suc 0) demo_env plain_runner ''/proj/bad.styl'' (Some plain_options)
       = (Inl (Error ''ParseError: unexpected indent''), [])
   \<and> sublist ''unexpected indent'' ''ParseError: unexpected indent''"
proof -
  define c where "c = \<lparr>str = ''bad'', filename = Some ''/proj/bad.styl'', imported = [],
                       defined = [(''__WEB__'', True)], used = []\<rparr>"
  have h1: "test_styl ''/proj/bad.styl''"
    by (simp add: test_styl_eval)
  have h2: "readFileSync demo_env ''/proj/bad.styl'' = Some ''bad''"
    by (simp add: demo_env_def demo_files_def)
  have h3: "stylusCompiler demo_env ''/proj/bad.styl'' ''bad'' = (Inr c, [])"
    by (simp add: stylusCompiler_def demo_env_def demo_files_def c_def)
  have h4: "stylus_render demo_env c = Inl (JsError ''ParseError'' ''unexpected indent'')"
    by (simp add: demo_env_def demo_render_def c_def)
  show ?thesis
    using stylus_error_is_wrapped [OF h1 h2 h3 h4, of 0 plain_runner "Some plain_options"] h1 h2
    by (simp add: errorToString_def del: getTokens.simps)
qed

text \<open>
  C6. When the pipeline run succeeds, \<open>getTokens\<close> returns exactly the token mapping that
  the parsing stage exposes, and the warnings only appear as \<open>console.warn\<close> lines after
  the events of the run. The value returned or the error thrown is the same whatever
  warnings the pipeline emits.
\<close>
theorem warnings_are_only_printed:
  "(prepare e p fo = (Inr (src, popts), l1) \<and> transform e r src popts = Inr sheet
      \<and> parserFetch r = Some captured
      \<and> fetchAll (fetch d e r captured) p (dependencies sheet) = (Inr ts, l2)
    \<longrightarrow> getTokens (Suc d) e r p fo
          = (Inr (assemble sheet ts), l1 @ l2 @ map ConsoleWarn (warnings sheet)))
   \<and> fst (getTokens d (rewarn W e) r p fo) = fst (getTokens d e r p fo)"
proof (intro conjI impI)
  assume a: "prepare e p fo = (Inr (src, popts), l1) \<and> transform e r src popts = Inr sheet
      \<and> parserFetch r = Some captured
      \<and> fetchAll (fetch d e r captured) p (dependencies sheet) = (Inr ts, l2)"
  then have "from_file popts = p"
    by (auto dest: prepare_from_file)
  with a show "getTokens (Suc d) e r p fo
          = (Inr (assemble sheet ts), l1 @ l2 @ map ConsoleWarn (warnings sheet))"
    by (simp add: process_def)
next
  show "fst (getTokens d (rewarn W e) r p fo) = fst (getTokens d e r p fo)"
    by (rule rewarn_getTokens)
qed

theorem warnings_are_only_printed_witness:
  "prepare demo_env ''/proj/shared.scss'' (Some plain_options)
     = (Inr ([], \<lparr>from_file = ''/proj/shared.scss'', syntax_opt = Some None\<rparr>), [])
   \<and> warnings (empty_sheet ''/proj/shared.scss'') = [''empty stylesheet'']
   \<and> getTokens (Suc 0) demo_env plain_runner ''/proj/shared.scss'' (Some plain_options)
       = (Inr [(''root'', ''/proj/shared.scss'')], [ConsoleWarn ''empty stylesheet''])"
proof -
  have h2: "transform demo_env plain_runner []
              \<lparr>from_file = ''/proj/shared.scss'', syntax_opt = Some None\<rparr>
              = Inr (empty_sheet ''/proj/shared.scss'')"
    by (simp add: demo_env_def demo_transform_def empty_sheet_def)
  have h3: "parserFetch plain_runner = Some (Some plain_options)"
    by (simp add: plain_runner_def)
  have h4: "fetchAll (fetch 0 demo_env plain_runner (Some plain_options)) ''/proj/shared.scss''
              (dependencies (empty_sheet ''/proj/shared.scss'')) = (Inr [], [])"
    by (simp add: empty_sheet_def)
  show ?thesis
    using warnings_are_only_printed
            [of demo_env "''/proj/shared.scss''" "Some plain_options" "[]"
               "\<lparr>from_file = ''/proj/shared.scss'', syntax_opt = Some None\<rparr>" "[]"
               plain_runner "empty_sheet ''/proj/shared.scss''" "Some plain_options" 0
               "[]" "[]"]
          demo_prepare_shared h2 h3 h4
    by (simp add: empty_sheet_def del: getTokens.simps)
qed

text \<open>
  C7. When \<open>filetypes\<close> has no entry under the extension of the source file, there are no
  filetype options: no extra plugin and no syntax module is loaded, the runner is the
  baseline plugin list, no file of the run gets a \<open>syntax\<close> option, and the run is the one
  that the same options without any \<open>filetypes\<close> mapping give, so the unmatched extension
  raises no error of its own.
\<close>
theorem unmatched_extension_is_baseline:
  assumes "filetypes options = Some ft" and "ft (extension_of p) = None"
  shows "getFiletypeOptions p (filetypes options) = None
       \<and> getExtraPlugins e (getFiletypeOptions p (filetypes options)) = (Inr [], [])
       \<and> getSyntax e (getFiletypeOptions p (filetypes options)) = (Inr None, [])
       \<and> buildRunner e p options
           = (Inr [Values, LocalByDefault, ExtractImports,
                   Scope (fst (resolveGenerateScopedName e options)), Parser None],
              snd (resolveGenerateScopedName e options))
       \<and> (\<forall>q src popts l.
             prepare e q (getFiletypeOptions p (filetypes options)) = (Inr (src, popts), l)
               \<longrightarrow> syntax_opt popts = None)
       \<and> requireCssModule d e p options = requireCssModule d e p (options\<lparr>filetypes := None\<rparr>)"
proof -
  have fo: "getFiletypeOptions p (filetypes options) = None"
    using assms by (simp add: getFiletypeOptions_def)
  have fo': "getFiletypeOptions p None = None"
    by (simp add: getFiletypeOptions_def)
  have rg: "resolveGenerateScopedName e (options\<lparr>filetypes := None\<rparr>)
              = resolveGenerateScopedName e options"
    by (simp add: resolveGenerateScopedName_def Let_def
        split: option.splits GenerateScopedNameConfigurationType.splits)
  have br: "buildRunner e p (options\<lparr>filetypes := None\<rparr>) = buildRunner e p options"
    by (simp add: buildRunner_def Let_def fo fo' rg)
  have "\<forall>q src popts l. prepare e q None = (Inr (src, popts), l) \<longrightarrow> syntax_opt popts = None"
    by (auto simp: prepare_def Let_def split: option.splits if_splits prod.splits sum.splits)
  moreover have "requireCssModule d e p options
                   = requireCssModule d e p (options\<lparr>filetypes := None\<rparr>)"
    by (simp add: requireCssModule_def br fo fo' split: prod.splits sum.splits)
  moreover have "buildRunner e p options
           = (Inr [Values, LocalByDefault, ExtractImports,
                   Scope (fst (resolveGenerateScopedName e options)), Parser None],
              snd (resolveGenerateScopedName e options))"
    by (simp add: buildRunner_def Let_def fo getExtraPlugins_def split: prod.splits)
  ultimately show ?thesis
    by (simp add: fo getExtraPlugins_def getSyntax_def)
qed

theorem unmatched_extension_is_baseline_witness:
  "filetypes pattern_options = Some demo_filetypes
   \<and> demo_filetypes (extension_of ''/proj/main.css'') = None
   \<and> buildRunner demo_env ''/proj/main.css'' pattern_options
       = (Inr [Values, LocalByDefault, ExtractImports,
               Scope (genericNames demo_env ''[local]'' ''/ctx''), Parser None],
          [GenericNames ''[local]'' ''/ctx''])
   \<and> requireCssModule 3 demo_env ''/proj/main.css'' pattern_options
       = requireCssModule 3 demo_env ''/proj/main.css'' (pattern_options\<lparr>filetypes := None\<rparr>)"
proof -
  have h1: "filetypes pattern_options = Some demo_filetypes"
    by (simp add: pattern_options_def)
  have "extension_of ''/proj/main.css'' = ''.css''"
    using extension_of_dotted [of "''css''" "''/proj/main''"] by simp
  then have h2: "demo_filetypes (extension_of ''/proj/main.css'') = None"
    by (simp add: demo_filetypes_def)
  show ?thesis
    using unmatched_extension_is_baseline [OF h1 h2, of demo_env 3] h1 h2
    by (simp add: demo_resolveGenerateScopedName)
qed

text \<open>
  C8 (amended). There is no cycle detection and no visited set: when two files refer to
  each other through \<open>composes ... from\<close>, the extraction of either returns a token mapping
  at no depth of the call stack; and when every file that can be reached from the pair
  through such references can be read, prepared and transformed, the recursion goes on
  until the stack-depth failure, which is the error thrown.
\<close>
theorem mutual_composes_never_returns:
  assumes "parserFetch r = Some fo"
    and "dependenciesOf e r fo a = Some da" and "b \<in> set da"
    and "dependenciesOf e r fo b = Some db" and "a \<in> set db"
  shows "isl (fst (getTokens d e r a fo))
       \<and> (a \<in> S \<and> (\<forall>p \<in> S. \<exists>ds. dependenciesOf e r fo p = Some ds \<and> set ds \<subseteq> S)
            \<longrightarrow> fst (getTokens d e r a fo) = Inl RangeError)"
proof -
  have both: "isl (fst (getTokens d e r a fo)) \<and> isl (fst (getTokens d e r b fo))"
  proof (induction d)
    case 0
    show ?case by simp
  next
    case (Suc d)
    then show ?case
      using getTokens_dependency_fails [OF assms(1,2,3)]
        getTokens_dependency_fails [OF assms(1,4,5)]
      by blast
  qed
  then obtain err where err: "fst (getTokens d e r a fo) = Inl err"
    by (cases "fst (getTokens d e r a fo)") auto
  have "err = RangeError"
    if "a \<in> S" and "\<forall>p \<in> S. \<exists>ds. dependenciesOf e r fo p = Some ds \<and> set ds \<subseteq> S"
    using getTokens_only_RangeError [OF assms(1) that(2) that(1) err] .
  with both err show ?thesis
    by simp
qed

theorem mutual_composes_never_returns_witness:
  "parserFetch bare_runner = Some None
   \<and> dependenciesOf demo_env bare_runner None ''/proj/a.css'' = Some [''/proj/b.css'']
   \<and> dependenciesOf demo_env bare_runner None ''/proj/b.css'' = Some [''/proj/a.css'']
   \<and> isl (fst (getTokens 1000 demo_env bare_runner ''/proj/a.css'' None))
   \<and> fst (getTokens 1000 demo_env bare_runner ''/proj/a.css'' None) = Inl RangeError"
proof -
  have h1: "parserFetch bare_runner = Some None"
    by (simp add: bare_runner_def)
  have h3: "''/proj/b.css'' \<in> set [''/proj/b.css'']" and h5: "''/proj/a.css'' \<in> set [''/proj/a.css'']"
    by simp_all
  have closed: "''/proj/a.css'' \<in> {''/proj/a.css'', ''/proj/b.css''}
        \<and> (\<forall>p \<in> {''/proj/a.css'', ''/proj/b.css''}.
              \<exists>ds. dependenciesOf demo_env bare_runner None p = Some ds
                   \<and> set ds \<subseteq> {''/proj/a.css'', ''/proj/b.css''})"
    by (simp add: demo_cycle_dependencies)
  show ?thesis
    using mutual_composes_never_returns
            [OF h1 demo_cycle_dependencies(1) h3 demo_cycle_dependencies(2) h5,
             of 1000 "{''/proj/a.css'', ''/proj/b.css''}"]
          h1 demo_cycle_dependencies closed
    by blast
qed

text \<open>
  The claim as stated fails on a pair that refers to each other when one of the two first
  refers to a file that cannot be read: the extraction ends with the error of that read,
  at a depth where the call stack is far from full.
\<close>
theorem mutual_composes_missing_import_counterexample:
  "parserFetch bare_runner = Some None
   \<and> dependenciesOf gap_env bare_runner None ''/proj/a.css''
       = Some [''/proj/missing.css'', ''/proj/b.css'']
   \<and> dependenciesOf gap_env bare_runner None ''/proj/b.css'' = Some [''/proj/a.css'']
   \<and> fst (getTokens 1000 gap_env bare_runner ''/proj/a.css'' None)
       = Inl (ENOENT ''/proj/missing.css'')
   \<and> fst (getTokens 1000 gap_env bare_runner ''/proj/a.css'' None) \<noteq> Inl RangeError"
proof -
  have "(1000::nat) = Suc (Suc 998)"
    by simp
  then have "fst (getTokens 1000 gap_env bare_runner ''/proj/a.css'' None)
               = Inl (ENOENT ''/proj/missing.css'')"
    using gap_getTokens [of 998] by (simp only:)
  moreover have "parserFetch bare_runner = Some None"
    by (simp add: bare_runner_def)
  ultimately show ?thesis
    by (simp add: gap_dependencies del: getTokens.simps)
qed

text \<open>
  C9. For a path without any \<open>.\<close>, the extension computed is the last character of the
  path (nothing for the empty path), so the resolver returns the entry of \<open>filetypes\<close>
  under that one-character key; the path does not match \<open>.styl\<close>, so the plugins of that
  entry are loaded in front of the baseline plugins and its syntax is set on the options
  of the pipeline.
\<close>
theorem dotless_path_matches_last_character:
  assumes "CHR ''.'' \<notin> set p"
  shows "extension_of p = (if p = [] then [] else [last p])
       \<and> getFiletypeOptions p (Some ft) = ft (extension_of p)
       \<and> \<not> test_styl p
       \<and> (p \<noteq> [] \<and> filetypes options = Some ft \<and> ft [last p] = Some fo \<longrightarrow>
            getFiletypeOptions p (filetypes options) = Some fo
          \<and> buildRunner e p options
              = (case getExtraPlugins e (Some fo) of
                   (Inl err, l1) \<Rightarrow> (Inl err, snd (resolveGenerateScopedName e options) @ l1)
                 | (Inr extraPlugins, l1) \<Rightarrow>
                     (Inr (extraPlugins @
                           [Values, LocalByDefault, ExtractImports,
                            Scope (fst (resolveGenerateScopedName e options)), Parser (Some fo)]),
                      snd (resolveGenerateScopedName e options) @ l1))
          \<and> prepare e p (Some fo)
              = (case readFileSync e p of
                   None \<Rightarrow> (Inl (ENOENT p), [])
                 | Some src \<Rightarrow>
                     (case getSyntax e (Some fo) of
                        (Inl err, l) \<Rightarrow> (Inl err, l)
                      | (Inr s, l) \<Rightarrow>
                          (Inr (src, \<lparr>from_file = p, syntax_opt = Some s\<rparr>), l))))"
proof -
  have ext: "extension_of p = (if p = [] then [] else [last p])"
    using assms by (rule extension_of_no_dot)
  have ns: "\<not> test_styl p"
    using assms test_styl_dot by blast
  show ?thesis
    using ns
    by (auto simp: ext getFiletypeOptions_def buildRunner_def prepare_def Let_def
        split: prod.splits sum.splits option.splits)
qed

theorem dotless_path_matches_last_character_witness:
  "CHR ''.'' \<notin> set ''/proj/Makefile''
   \<and> extension_of ''/proj/Makefile'' = ''e''
   \<and> getFiletypeOptions ''/proj/Makefile'' (filetypes pattern_options) = Some scss_options
   \<and> buildRunner demo_env ''/proj/Makefile'' pattern_options
       = (Inr [Loaded (Module ''postcss-nested'' None True), Values, LocalByDefault, ExtractImports,
               Scope (genericNames demo_env ''[local]'' ''/ctx''), Parser (Some scss_options)],
          [GenericNames ''[local]'' ''/ctx'', Require ''postcss-nested''])
   \<and> prepare demo_env ''/proj/Makefile'' (Some scss_options)
       = (Inr ([], \<lparr>from_file = ''/proj/Makefile'',
                     syntax_opt = Some (Some (Module ''postcss-scss'' None True))\<rparr>),
          [Require ''postcss-scss''])"
proof -
  have h1: "CHR ''.'' \<notin> set ''/proj/Makefile''"
    by simp
  have h3: "''/proj/Makefile'' \<noteq> [] \<and> filetypes pattern_options = Some demo_filetypes
            \<and> demo_filetypes [last ''/proj/Makefile''] = Some scss_options"
    by (simp add: pattern_options_def demo_filetypes_def)
  have r: "readFileSync demo_env ''/proj/Makefile'' = Some []"
    by (simp add: demo_env_def demo_files_def)
  show ?thesis
    using dotless_path_matches_last_character
            [OF h1, of demo_filetypes pattern_options scss_options demo_env] h3
    by (simp add: demo_resolveGenerateScopedName demo_getExtraPlugins demo_getSyntax r)
qed

text \<open>
  C10. For a \<open>.styl\<close> source file and a \<open>filetypes\<close> entry under \<open>.styl\<close>, the resolver
  returns that entry and its plugins are loaded in front of the baseline plugins, while
  the preparation of the file ignores the entry: it is the same as without filetype
  options, and sets no \<open>syntax\<close> option.
\<close>
theorem styl_entry_plugins_still_loaded:
  assumes "test_styl p" and "filetypes options = Some ft" and "ft ''.styl'' = Some fo"
  shows "getFiletypeOptions p (filetypes options) = Some fo
       \<and> buildRunner e p options
           = (case getExtraPlugins e (Some fo) of
                (Inl err, l1) \<Rightarrow> (Inl err, snd (resolveGenerateScopedName e options) @ l1)
              | (Inr extraPlugins, l1) \<Rightarrow>
                  (Inr (extraPlugins @
                        [Values, LocalByDefault, ExtractImports,
                         Scope (fst (resolveGenerateScopedName e options)), Parser (Some fo)]),
                   snd (resolveGenerateScopedName e options) @ l1))
       \<and> prepare e p (Some fo) = prepare e p None
       \<and> (\<forall>src popts l. prepare e p (Some fo) = (Inr (src, popts), l) \<longrightarrow> syntax_opt popts = None)"
proof -
  have fo: "getFiletypeOptions p (filetypes options) = Some fo"
    using assms by (simp add: getFiletypeOptions_def extension_of_styl)
  have "\<forall>src popts l. prepare e p (Some fo) = (Inr (src, popts), l) \<longrightarrow> syntax_opt popts = None"
    using assms(1)
    by (auto simp: prepare_def Let_def split: option.splits if_splits prod.splits sum.splits)
  then show ?thesis
    using assms(1)
    by (auto simp: fo buildRunner_def Let_def prepare_styl_ignores_options [of p e "Some fo"]
        split: prod.splits sum.splits)
qed

theorem styl_entry_plugins_still_loaded_witness:
  "test_styl ''/proj/theme.styl''
   \<and> filetypes pattern_options = Some demo_filetypes
   \<and> demo_filetypes ''.styl'' = Some scss_options
   \<and> buildRunner demo_env ''/proj/theme.styl'' pattern_options
       = (Inr [Loaded (Module ''postcss-nested'' None True), Values, LocalByDefault, ExtractImports,
               Scope (genericNames demo_env ''[local]'' ''/ctx''), Parser (Some scss_options)],
          [GenericNames ''[local]'' ''/ctx'', Require ''postcss-nested''])
   \<and> prepare demo_env ''/proj/theme.styl'' (Some scss_options)
       = prepare demo_env ''/proj/theme.styl'' None"
proof -
  have h1: "test_styl ''/proj/theme.styl''"
    by (simp add: test_styl_eval)
  have h2: "filetypes pattern_options = Some demo_filetypes"
    by (simp add: pattern_options_def)
  have h3: "demo_filetypes ''.styl'' = Some scss_options"
    by (simp add: demo_filetypes_def)
  show ?thesis
    using styl_entry_plugins_still_loaded [OF h1 h2 h3, of demo_env] h1 h2 h3
    by (simp add: demo_resolveGenerateScopedName demo_getExtraPlugins)
qed

end
